theory Spec2Isabelle
  imports Main "HOL-Library.Word"
begin

section \<open>Errors raised by the image pre-processing routines\<close>

text \<open>
  The Python source raises plain \<open>Exception\<close>s with a message, \<open>ValueError\<close>s,
  failed \<open>assert\<close>s, and the interpreter's own \<open>IndexError\<close> and
  \<open>ZeroDivisionError\<close>. Each one is a value here. The three plain exceptions are told
  apart by their message: "Parameter ... cannot be empty", "Type of padding not understood"
  and "One of the bounding boxes is negative".
\<close>

datatype error =
    ParameterEmpty
  | PaddingNotUnderstood
  | NegativeBoundingBox
  | AssertionError
  | ValueError
  | IndexError
  | ZeroDivisionError

text \<open>
  A bounding box, a patch and a crop rectangle are Python sequences of four integers
  \<open>[xmin, ymin, xmax, ymax]\<close>; an offset, a window size, a stride size and a number of
  patches are pairs \<open>(width, height)\<close>.
\<close>

type_synonym box = "int \<times> int \<times> int \<times> int"

section \<open>Counting the patches that fit: \<open>get_valid_padding\<close>\<close>

text \<open>
  Both \<open>while(True)\<close> loops of \<open>get_valid_padding\<close> (and of \<open>get_same_padding\<close>)
  have the same body: as long as the window's far edge is inside the image, move the far
  edge by the stride and count one more patch. The loop state is the far edge and the
  counter; on integers the \<open>else: continue\<close> branch cannot be reached. Nothing bounds
  the number of iterations, so the loop is a partial function: \<open>None\<close> is "does not
  return".
\<close>

partial_function (option) count_loop :: "int \<Rightarrow> int \<Rightarrow> int \<Rightarrow> int \<Rightarrow> (int \<times> int) option" where
  "count_loop slide_window stride image_dim number_patches =
     (if slide_window \<le> image_dim
      then count_loop (slide_window + stride) stride image_dim (number_patches + 1)
      else Some (slide_window, number_patches))"

definition get_valid_padding ::
  "int \<Rightarrow> int \<Rightarrow> int \<Rightarrow> int \<Rightarrow> int \<Rightarrow> int \<Rightarrow> (int \<times> int) option" where
  "get_valid_padding slide_window_height stride_height image_height
                     slide_window_width stride_width image_width =
     (case count_loop slide_window_height stride_height image_height 0 of
        None \<Rightarrow> None
      | Some (swh, number_patches_height) \<Rightarrow>
          (case count_loop slide_window_width stride_width image_width 0 of
             None \<Rightarrow> None
           | Some (sww, number_patches_width) \<Rightarrow>
               Some (number_patches_height, number_patches_width)))"

section \<open>The zeros needed for an exact fit: \<open>get_same_padding\<close>\<close>

text \<open>
  After the two counting loops the far edges are moved back by one stride. The width is
  examined first, then the height; a far edge beyond the image fails the \<open>assert\<close>.
  The result is \<open>(zeros_h, zeros_w)\<close>.
\<close>

definition get_same_padding ::
  "int \<Rightarrow> int \<Rightarrow> int \<Rightarrow> int \<Rightarrow> int \<Rightarrow> int \<Rightarrow> (error + int \<times> int) option" where
  "get_same_padding slide_window_height stride_height image_height
                    slide_window_width stride_width image_width =
     (case count_loop slide_window_height stride_height image_height 0 of
        None \<Rightarrow> None
      | Some (swh, number_patches_height) \<Rightarrow>
          (case count_loop slide_window_width stride_width image_width 0 of
             None \<Rightarrow> None
           | Some (sww, number_patches_width) \<Rightarrow>
               (let slide_window_height = swh - stride_height;
                    slide_window_width = sww - stride_width
                in case (if slide_window_width = image_width then Inr 0
                         else if slide_window_width < image_width
                           then Inr ((slide_window_width + stride_width) - image_width)
                         else Inl AssertionError) of
                     Inl e \<Rightarrow> Some (Inl e)
                   | Inr zeros_w \<Rightarrow>
                       (case (if slide_window_height = image_height then Inr 0
                              else if slide_window_height < image_height
                                then Inr ((slide_window_height + stride_height) - image_height)
                              else Inl AssertionError) of
                          Inl e \<Rightarrow> Some (Inl e)
                        | Inr zeros_h \<Rightarrow> Some (Inr (zeros_h, zeros_w))))))"

section \<open>The crop around the bounding boxes: \<open>adjustImage\<close>\<close>

text \<open>
  The block "Add space on X": the left side first; what cannot be added on one side is
  added on the other when the frame has room for it.
\<close>

definition space_on_x :: "int \<Rightarrow> int \<Rightarrow> int \<Rightarrow> int \<Rightarrow> int \<Rightarrow> int \<times> int" where
  "space_on_x xmin xmax offsetXLeft offsetXRight frameWidth =
     (if xmin - offsetXLeft < 0 then
        (let RoiXMin = 0;
             availableSpaceLeft = xmin;
             offsetXLeft = offsetXLeft - availableSpaceLeft
         in if xmax + offsetXLeft + offsetXRight < frameWidth
              then (RoiXMin, xmax + offsetXLeft + offsetXRight)
            else if xmax + offsetXLeft + offsetXRight = frameWidth
              then (RoiXMin, frameWidth)
            else if xmax + offsetXRight < frameWidth
              then (RoiXMin, xmax + offsetXRight)
            else if xmax + offsetXRight = frameWidth
              then (RoiXMin, frameWidth)
            else (RoiXMin, frameWidth))
      else
        (let RoiXMin = xmin - offsetXLeft
         in if xmax + offsetXRight < frameWidth
              then (RoiXMin, xmax + offsetXRight)
            else if xmax + offsetXRight = frameWidth
              then (RoiXMin, frameWidth)
            else
              (let RoiXMax = frameWidth;
                   availableSpaceRight = frameWidth - xmax;
                   offsetXRight = offsetXRight - availableSpaceRight
               in if xmin - offsetXLeft - offsetXRight > 0
                    then (xmin - offsetXLeft - offsetXRight, RoiXMax)
                  else if xmin - offsetXLeft - offsetXRight = 0
                    then (0, RoiXMax)
                  else (RoiXMin, RoiXMax))))"

text \<open>
  The block "Add space on y". It follows the x block, except that with room on both sides
  the lower edge is \<open>ymax + offsetYTop\<close>, as the source has it.
\<close>

definition space_on_y :: "int \<Rightarrow> int \<Rightarrow> int \<Rightarrow> int \<Rightarrow> int \<Rightarrow> int \<times> int" where
  "space_on_y ymin ymax offsetYTop offsetYBottom frameHeight =
     (if ymin - offsetYTop < 0 then
        (let RoiYMin = 0;
             availableSpaceTop = ymin;
             offsetYTop = offsetYTop - availableSpaceTop
         in if ymax + offsetYTop + offsetYBottom < frameHeight
              then (RoiYMin, ymax + offsetYTop + offsetYBottom)
            else if ymax + offsetYTop + offsetYBottom = frameHeight
              then (RoiYMin, frameHeight)
            else if ymax + offsetYBottom < frameHeight
              then (RoiYMin, ymax + offsetYBottom)
            else if ymax + offsetYBottom = frameHeight
              then (RoiYMin, frameHeight)
            else (RoiYMin, frameHeight))
      else
        (let RoiYMin = ymin - offsetYTop
         in if ymax + offsetYBottom < frameHeight
              then (RoiYMin, ymax + offsetYTop)
            else if ymax + offsetYBottom = frameHeight
              then (RoiYMin, frameHeight)
            else
              (let RoiYMax = frameHeight;
                   availableSpaceBottom = frameHeight - ymax;
                   offsetYBottom = offsetYBottom - availableSpaceBottom
               in if ymin - offsetYTop - offsetYBottom > 0
                    then (ymin - offsetYTop - offsetYBottom, RoiYMax)
                  else if ymin - offsetYTop - offsetYBottom = 0
                    then (0, RoiYMax)
                  else (RoiYMin, RoiYMax))))"

text \<open>
  The offset that is used: an offset that is not smaller than the frame on some axis is
  replaced, on both axes, by the frame's smaller side minus 10.
\<close>

definition used_offset :: "int \<Rightarrow> int \<Rightarrow> int \<times> int \<Rightarrow> int \<times> int" where
  "used_offset frameHeight frameWidth offset =
     (if frameWidth \<le> fst offset \<or> frameHeight \<le> snd offset
      then (let smallerAxis = min frameWidth frameHeight - 10 in (smallerAxis, smallerAxis))
      else offset)"

definition x_coordinates :: "box list \<Rightarrow> int list" where
  "x_coordinates localBoundingBoxes =
     concat (map (\<lambda>(b0, b1, b2, b3). [b0, b2]) localBoundingBoxes)"

definition y_coordinates :: "box list \<Rightarrow> int list" where
  "y_coordinates localBoundingBoxes =
     concat (map (\<lambda>(b0, b1, b2, b3). [b1, b3]) localBoundingBoxes)"

text \<open>
  The space to add on an axis: 10 when the boxes already span the offset, the difference
  otherwise.
\<close>

definition axis_offset :: "int \<Rightarrow> int \<Rightarrow> int" where
  "axis_offset Roi sideOffset = (if Roi \<ge> sideOffset then 10 else sideOffset - Roi)"

text \<open>
  \<open>adjustImage\<close> itself. A parameter that is \<open>None\<close> raises; an offset is a pair here,
  so the checks of its type and length cannot fail; \<open>min\<close> and \<open>max\<close> of an empty
  list of coordinates raise \<open>ValueError\<close>.
\<close>

definition adjustImage ::
  "int option \<Rightarrow> int option \<Rightarrow> box list option \<Rightarrow> (int \<times> int) option \<Rightarrow> error + box" where
  "adjustImage frameHeight frameWidth boundingBoxes offset =
     (case frameHeight of None \<Rightarrow> Inl ParameterEmpty | Some frameHeight \<Rightarrow>
      case frameWidth of None \<Rightarrow> Inl ParameterEmpty | Some frameWidth \<Rightarrow>
      case boundingBoxes of None \<Rightarrow> Inl ParameterEmpty | Some localBoundingBoxes \<Rightarrow>
      case offset of None \<Rightarrow> Inl ParameterEmpty | Some offset \<Rightarrow>
        (let offset = used_offset frameHeight frameWidth offset;
             widthOffset = fst offset;
             heightOffset = snd offset
         in if localBoundingBoxes = [] then Inl ValueError
            else
              (let xmin = Min (set (x_coordinates localBoundingBoxes));
                   xmax = Max (set (x_coordinates localBoundingBoxes));
                   ymin = Min (set (y_coordinates localBoundingBoxes));
                   ymax = Max (set (y_coordinates localBoundingBoxes));
                   RoiX = xmax - xmin;
                   RoiY = ymax - ymin;
                   offsetY = axis_offset RoiY heightOffset;
                   offsetX = axis_offset RoiX widthOffset;
                   offsetXLeft = offsetX div 2;
                   offsetXRight = offsetX - offsetXLeft;
                   offsetYTop = offsetY - offsetY div 2;
                   offsetYBottom = offsetY - offsetYTop;
                   (RoiXMin, RoiXMax) = space_on_x xmin xmax offsetXLeft offsetXRight frameWidth;
                   (RoiYMin, RoiYMax) = space_on_y ymin ymax offsetYTop offsetYBottom frameHeight
               in Inr (RoiXMin, RoiYMin, RoiXMax, RoiYMax))))"

section \<open>The boxes inside a crop: \<open>includeBoundingBoxes\<close>\<close>

text \<open>
  The loop over \<open>range(len(boundingBoxes))\<close> reads \<open>names[i]\<close> beside each box, so a
  list of names that is too short raises \<open>IndexError\<close>. The accumulators are the two
  result lists. The source's variable \<open>by\<close> is written \<open>b_y\<close>.
\<close>

fun include_loop ::
  "box \<Rightarrow> box list \<Rightarrow> string list \<Rightarrow> box list \<Rightarrow> string list
     \<Rightarrow> error + box list \<times> string list" where
  "include_loop edges [] names newBoundingBoxes newNames = Inr (newBoundingBoxes, newNames)"
| "include_loop edges (b # boundingBoxes) [] newBoundingBoxes newNames = Inl IndexError"
| "include_loop edges (b # boundingBoxes) (name # names) newBoundingBoxes newNames =
     (let (ix, iy, x, y) = edges;
          (bix, biy, bx, b_y) = b
      in if (bix \<ge> ix \<and> bx \<le> x) \<and> (biy \<ge> iy \<and> b_y \<le> y) then
           (let bix = bix - ix;
                bx = bx - ix;
                biy = biy - iy;
                b_y = b_y - iy
            in if bix < 0 \<or> biy < 0 then Inl NegativeBoundingBox
               else
                 (let bx = (if bx = x - ix then bx - 1 else bx);
                      b_y = (if b_y = y - iy then b_y - 1 else b_y)
                  in include_loop edges boundingBoxes names
                       (newBoundingBoxes @ [(bix, biy, bx, b_y)]) (newNames @ [name])))
         else include_loop edges boundingBoxes names newBoundingBoxes newNames)"

definition includeBoundingBoxes ::
  "box option \<Rightarrow> box list option \<Rightarrow> string list option
     \<Rightarrow> error + box list \<times> string list" where
  "includeBoundingBoxes edges boundingBoxes names =
     (case edges of None \<Rightarrow> Inl ValueError | Some edges \<Rightarrow>
      case boundingBoxes of None \<Rightarrow> Inl ValueError | Some boundingBoxes \<Rightarrow>
      case names of None \<Rightarrow> Inl ValueError | Some names \<Rightarrow>
        include_loop edges boundingBoxes names [] [])"

section \<open>The grid of patches: \<open>divideIntoPatches\<close>\<close>

text \<open>
  The inner \<open>for j\<close> loop appends one patch and moves the two width pixels by the
  stride; the outer \<open>for i\<close> loop runs it, puts the width pixels back to \<open>0\<close> and to the
  window's width, and moves the two height pixels. Neither loop uses its index, so each is
  a recursion on the number of iterations left. The state is the four pixels and the list.
\<close>

primrec patches_row ::
  "nat \<Rightarrow> int \<Rightarrow> int \<Rightarrow> int \<Rightarrow> int \<Rightarrow> int \<Rightarrow> box list \<Rightarrow> int \<times> int \<times> box list" where
  "patches_row 0 strideWidth startPixelsHeight endPixelsHeight
       startPixelsWidth endPixelsWidth patchesCoordinates =
     (startPixelsWidth, endPixelsWidth, patchesCoordinates)"
| "patches_row (Suc j) strideWidth startPixelsHeight endPixelsHeight
       startPixelsWidth endPixelsWidth patchesCoordinates =
     patches_row j strideWidth startPixelsHeight endPixelsHeight
       (startPixelsWidth + strideWidth) (endPixelsWidth + strideWidth)
       (patchesCoordinates
          @ [(startPixelsWidth, startPixelsHeight, endPixelsWidth, endPixelsHeight)])"

primrec patches_rows ::
  "nat \<Rightarrow> nat \<Rightarrow> int \<Rightarrow> int \<Rightarrow> int \<Rightarrow> int \<Rightarrow> int \<Rightarrow> int \<Rightarrow> int \<Rightarrow> box list \<Rightarrow> box list" where
  "patches_rows 0 numberPatchesWidth slideWindowWidth strideWidth strideHeight
       startPixelsHeight endPixelsHeight startPixelsWidth endPixelsWidth patchesCoordinates =
     patchesCoordinates"
| "patches_rows (Suc i) numberPatchesWidth slideWindowWidth strideWidth strideHeight
       startPixelsHeight endPixelsHeight startPixelsWidth endPixelsWidth patchesCoordinates =
     (let (startPixelsWidth, endPixelsWidth, patchesCoordinates) =
            patches_row numberPatchesWidth strideWidth startPixelsHeight endPixelsHeight
              startPixelsWidth endPixelsWidth patchesCoordinates;
          startPixelsWidth = 0;
          endPixelsWidth = slideWindowWidth
      in patches_rows i numberPatchesWidth slideWindowWidth strideWidth strideHeight
           (startPixelsHeight + strideHeight) (endPixelsHeight + strideHeight)
           startPixelsWidth endPixelsWidth patchesCoordinates)"

text \<open>
  The part the three paddings share: the four pixels are set to \<open>0\<close> and to the window,
  the patches are counted by \<open>get_valid_padding\<close>, and the two loops run. A count is never
  negative, and \<open>range\<close> of it runs that many times. After a row \<open>VALID_FIT_ALL\<close> puts
  the end pixel back to the stride's width, which there is the window's width.
\<close>

definition valid_patches ::
  "int \<Rightarrow> int \<Rightarrow> int \<Rightarrow> int \<Rightarrow> int \<Rightarrow> int \<Rightarrow> (box list \<times> int \<times> int) option" where
  "valid_patches slideWindowHeight strideHeight imageHeight
                 slideWindowWidth strideWidth imageWidth =
     (let startPixelsHeight = 0;
          endPixelsHeight = slideWindowHeight;
          startPixelsWidth = 0;
          endPixelsWidth = slideWindowWidth;
          patchesCoordinates = []
      in case get_valid_padding slideWindowHeight strideHeight imageHeight
                slideWindowWidth strideWidth imageWidth of
           None \<Rightarrow> None
         | Some (numberPatchesHeight, numberPatchesWidth) \<Rightarrow>
             Some (patches_rows (nat numberPatchesHeight) (nat numberPatchesWidth)
                     slideWindowWidth strideWidth strideHeight
                     startPixelsHeight endPixelsHeight startPixelsWidth endPixelsWidth
                     patchesCoordinates,
                   numberPatchesHeight, numberPatchesWidth))"

text \<open>
  The sliding window and the stride after the four "too big" checks:
  \<open>(slideWindowWidth, slideWindowHeight, strideWidth, strideHeight)\<close>.
\<close>

definition window_and_stride ::
  "int \<Rightarrow> int \<Rightarrow> int \<times> int \<Rightarrow> int \<times> int \<Rightarrow> int \<times> int \<times> int \<times> int" where
  "window_and_stride imageWidth imageHeight slideWindowSize strideSize =
     (let slideWindowWidth = fst slideWindowSize;
          slideWindowHeight = snd slideWindowSize;
          slideWindowHeight =
            (if slideWindowHeight > imageHeight then imageHeight - 1 else slideWindowHeight);
          slideWindowWidth =
            (if slideWindowWidth > imageWidth then imageWidth - 1 else slideWindowWidth);
          strideWidth = fst strideSize;
          strideHeight = snd strideSize;
          strideHeight = (if strideHeight > imageHeight then imageHeight - 1 else strideHeight);
          strideWidth = (if strideWidth > imageWidth then imageWidth - 1 else strideWidth)
      in (slideWindowWidth, slideWindowHeight, strideWidth, strideHeight))"

text \<open>
  \<open>divideIntoPatches\<close>. The result is the list of patches, the number of row patches, the
  number of column patches and, for the padding \<open>SAME\<close> only, \<open>(zeros_h, zeros_w)\<close>.
  The outer \<open>option\<close> is \<open>None\<close> when a counting loop does not return. In
  \<open>VALID_FIT_ALL\<close> the source computes \<open>math.floor(imageHeight / patchesRows)\<close>, which
  is the floor division of the two integers (as long as the quotient is exact in a float,
  which image sizes are) and raises \<open>ZeroDivisionError\<close> on \<open>0\<close>.
\<close>

definition divideIntoPatches ::
  "int option \<Rightarrow> int option \<Rightarrow> (int \<times> int) option \<Rightarrow> (int \<times> int) option \<Rightarrow> string option
     \<Rightarrow> (int \<times> int) option
     \<Rightarrow> (error + box list \<times> int \<times> int \<times> (int \<times> int) option) option" where
  "divideIntoPatches imageWidth imageHeight slideWindowSize strideSize padding numberPatches =
     (case imageWidth of None \<Rightarrow> Some (Inl ParameterEmpty) | Some imageWidth \<Rightarrow>
      case imageHeight of None \<Rightarrow> Some (Inl ParameterEmpty) | Some imageHeight \<Rightarrow>
        (let slideWindowSize = (case slideWindowSize of None \<Rightarrow> (0, 0) | Some v \<Rightarrow> v);
             strideSize = (case strideSize of None \<Rightarrow> (0, 0) | Some v \<Rightarrow> v);
             padding = (case padding of None \<Rightarrow> ''VALID'' | Some v \<Rightarrow> v);
             numberPatches = (case numberPatches of None \<Rightarrow> (1, 1) | Some v \<Rightarrow> v);
             (slideWindowWidth, slideWindowHeight, strideWidth, strideHeight) =
               window_and_stride imageWidth imageHeight slideWindowSize strideSize
         in if padding = ''VALID'' then
              (case valid_patches slideWindowHeight strideHeight imageHeight
                      slideWindowWidth strideWidth imageWidth of
                 None \<Rightarrow> None
               | Some (patchesCoordinates, numberPatchesHeight, numberPatchesWidth) \<Rightarrow>
                   Some (Inr (patchesCoordinates, numberPatchesHeight, numberPatchesWidth,
                              None)))
            else if padding = ''SAME'' then
              (case get_same_padding slideWindowHeight strideHeight imageHeight
                      slideWindowWidth strideWidth imageWidth of
                 None \<Rightarrow> None
               | Some (Inl e) \<Rightarrow> Some (Inl e)
               | Some (Inr (zeros_h, zeros_w)) \<Rightarrow>
                   (let imageWidth = imageWidth + zeros_w;
                        imageHeight = imageHeight + zeros_h
                    in case valid_patches slideWindowHeight strideHeight imageHeight
                              slideWindowWidth strideWidth imageWidth of
                         None \<Rightarrow> None
                       | Some (patchesCoordinates, numberPatchesHeight, numberPatchesWidth) \<Rightarrow>
                           Some (Inr (patchesCoordinates, numberPatchesHeight,
                                      numberPatchesWidth, Some (zeros_h, zeros_w)))))
            else if padding = ''VALID_FIT_ALL'' then
              (let patchesCols = fst numberPatches;
                   patchesRows = snd numberPatches
               in if patchesRows = 0 \<or> patchesCols = 0 then Some (Inl ZeroDivisionError)
                  else
                    (let strideHeight = imageHeight div patchesRows;
                         slideWindowHeight = strideHeight;
                         strideWidth = imageWidth div patchesCols;
                         slideWindowWidth = strideWidth
                     in case valid_patches slideWindowHeight strideHeight imageHeight
                               slideWindowWidth strideWidth imageWidth of
                          None \<Rightarrow> None
                        | Some (patchesCoordinates, numberPatchesHeight, numberPatchesWidth) \<Rightarrow>
                            Some (Inr (patchesCoordinates, numberPatchesHeight,
                                       numberPatchesWidth, None))))
            else Some (Inl PaddingNotUnderstood)))"

section \<open>Padding a frame with zeros: \<open>lazySAMEpad\<close>\<close>

text \<open>
  A frame is a numpy array of shape \<open>(rows, cols, 3)\<close> of bytes: here the number of
  columns and the list of rows, each a list of pixels of three channels. \<open>np.zeros\<close> of a
  negative dimension raises \<open>ValueError\<close>, and so does the assignment of the frame into
  a container that a negative amount has made narrower. A padding type that is neither
  \<open>BOTH_SIDES\<close> nor \<open>ONE_SIDE\<close> falls through both branches: the function returns
  \<open>None\<close>. A call that leaves the padding type out is a call with \<open>ONE_SIDE\<close>.
\<close>

type_synonym pixel = "8 word \<times> 8 word \<times> 8 word"

record frame =
  cols :: nat
  pixels :: "pixel list list"

definition rows :: "frame \<Rightarrow> nat" where
  "rows fr = length (pixels fr)"

definition well_shaped :: "frame \<Rightarrow> bool" where
  "well_shaped fr = list_all (\<lambda>row. length row = cols fr) (pixels fr)"

definition np_zeros :: "nat \<Rightarrow> nat \<Rightarrow> pixel list list" where
  "np_zeros n m = replicate n (replicate m (0, 0, 0))"

text \<open>
  \<open>int(zeros / 2)\<close> of an even amount, and of the odd amount plus one: the number of
  zeros put on each of the two sides. The division is a float's, exact on the even numbers
  a float holds.
\<close>

definition half_zeros :: "int \<Rightarrow> int" where
  "half_zeros zeros = (if zeros mod 2 = 0 then zeros div 2 else (zeros + 1) div 2)"

definition lazySAMEpad :: "frame \<Rightarrow> int \<Rightarrow> int \<Rightarrow> string \<Rightarrow> error + frame option" where
  "lazySAMEpad fr zeros_h zeros_w padding_type =
     (if padding_type = ''BOTH_SIDES'' then
        (let zeros_h = half_zeros zeros_h
         in if zeros_h < 0 then Inl ValueError
            else
              (let fr = fr\<lparr>pixels := np_zeros (nat zeros_h) (cols fr) @ pixels fr
                                         @ np_zeros (nat zeros_h) (cols fr)\<rparr>;
                   zeros_w = half_zeros zeros_w
               in if zeros_w < 0 then Inl ValueError
                  else
                    Inr (Some \<lparr>cols = nat zeros_w * 2 + cols fr,
                               pixels = map (\<lambda>row. replicate (nat zeros_w) (0, 0, 0) @ row
                                                      @ replicate (nat zeros_w) (0, 0, 0))
                                          (pixels fr)\<rparr>)))
      else if padding_type = ''ONE_SIDE'' then
        (if zeros_h < 0 then Inl ValueError
         else
           (let fr = fr\<lparr>pixels := pixels fr @ np_zeros (nat zeros_h) (cols fr)\<rparr>
            in if zeros_w < 0 then Inl ValueError
               else
                 Inr (Some \<lparr>cols = cols fr + nat zeros_w,
                            pixels = map (\<lambda>row. row @ replicate (nat zeros_w) (0, 0, 0))
                                       (pixels fr)\<rparr>)))
      else Inr None)"

section \<open>The formulas of the specification\<close>

text \<open>
  The specification's closed form of the count, written from its words: \<open>0\<close> if the
  window is larger than the target, \<open>floor((target - window) / stride) + 1\<close> otherwise.
\<close>

definition countValidPatches :: "int \<Rightarrow> int \<Rightarrow> int \<Rightarrow> int" where
  "countValidPatches windowDim strideDim targetDim =
     (if windowDim > targetDim then 0 else (targetDim - windowDim) div strideDim + 1)"

text \<open>
  The specification's zeros for an exact fit, written from its words: with the fitted
  extent \<open>window + stride * (count - 1)\<close>, no zeros when it equals the target, and the
  fitted extent plus one stride minus the target otherwise.
\<close>

definition computeSamePadding :: "int \<Rightarrow> int \<Rightarrow> int \<Rightarrow> int" where
  "computeSamePadding windowDim strideDim targetDim =
     (let count = countValidPatches windowDim strideDim targetDim;
          fittedExtent = windowDim + strideDim * (count - 1)
      in if fittedExtent = targetDim then 0 else fittedExtent + strideDim - targetDim)"

text \<open>
  The union box of the specification: the minimum of all minima and the maximum of all
  maxima on each axis. A box lies inside the frame when its coordinates are ordered and
  between \<open>0\<close> and the frame's size.
\<close>

definition union_box :: "box list \<Rightarrow> box" where
  "union_box boxes =
     (Min (set (map (\<lambda>(xmin, ymin, xmax, ymax). xmin) boxes)),
      Min (set (map (\<lambda>(xmin, ymin, xmax, ymax). ymin) boxes)),
      Max (set (map (\<lambda>(xmin, ymin, xmax, ymax). xmax) boxes)),
      Max (set (map (\<lambda>(xmin, ymin, xmax, ymax). ymax) boxes)))"

definition ordered_box :: "box \<Rightarrow> bool" where
  "ordered_box b = (case b of (xmin, ymin, xmax, ymax) \<Rightarrow> xmin \<le> xmax \<and> ymin \<le> ymax)"

definition inside_frame :: "int \<Rightarrow> int \<Rightarrow> box \<Rightarrow> bool" where
  "inside_frame frameWidth frameHeight b =
     (case b of (xmin, ymin, xmax, ymax) \<Rightarrow>
        0 \<le> xmin \<and> xmin \<le> xmax \<and> xmax \<le> frameWidth
        \<and> 0 \<le> ymin \<and> ymin \<le> ymax \<and> ymax \<le> frameHeight)"

text \<open>
  The crop the specification describes on an axis when neither side leaves the frame: the
  extra space \<open>max(10, margin - roi)\<close>, split with the leading half rounded down on the
  width axis and the trailing half rounded down on the height axis.
\<close>

definition spec_extra :: "int \<Rightarrow> int \<Rightarrow> int" where
  "spec_extra marginAxis roiAxis = max 10 (marginAxis - roiAxis)"

definition spec_crop_width :: "int \<Rightarrow> int \<Rightarrow> int \<Rightarrow> int \<times> int" where
  "spec_crop_width unionMin unionMax marginWidth =
     (let extra = spec_extra marginWidth (unionMax - unionMin);
          leading = extra div 2;
          trailing = extra - leading
      in (unionMin - leading, unionMax + trailing))"

definition spec_crop_height :: "int \<Rightarrow> int \<Rightarrow> int \<Rightarrow> int \<times> int" where
  "spec_crop_height unionMin unionMax marginHeight =
     (let extra = spec_extra marginHeight (unionMax - unionMin);
          trailing = extra div 2;
          leading = extra - trailing
      in (unionMin - leading, unionMax + trailing))"

text \<open>
  The clipper of the specification: a box is kept when its four coordinates lie within
  the crop rectangle; a kept box is translated by the crop's minimum, and a translated
  maximum that equals the crop's width or height is decremented by 1. A returned box is
  within the crop's local extent when none of its coordinates is negative or reaches the
  crop's width (on x) or height (on y).
\<close>

definition contained :: "box \<Rightarrow> box \<Rightarrow> bool" where
  "contained cropRectangle b =
     (case cropRectangle of (cxmin, cymin, cxmax, cymax) \<Rightarrow>
      case b of (bxmin, bymin, bxmax, bymax) \<Rightarrow>
        bxmin \<ge> cxmin \<and> bxmax \<le> cxmax \<and> bymin \<ge> cymin \<and> bymax \<le> cymax)"

definition translated :: "box \<Rightarrow> box \<Rightarrow> box" where
  "translated cropRectangle b =
     (case cropRectangle of (cxmin, cymin, cxmax, cymax) \<Rightarrow>
      case b of (bxmin, bymin, bxmax, bymax) \<Rightarrow>
        (bxmin - cxmin, bymin - cymin,
         (if bxmax - cxmin = cxmax - cxmin then bxmax - cxmin - 1 else bxmax - cxmin),
         (if bymax - cymin = cymax - cymin then bymax - cymin - 1 else bymax - cymin)))"

definition within_extent :: "box \<Rightarrow> box \<Rightarrow> bool" where
  "within_extent cropRectangle b =
     (case cropRectangle of (cxmin, cymin, cxmax, cymax) \<Rightarrow>
      case b of (localXmin, localYmin, localXmax, localYmax) \<Rightarrow>
        0 \<le> localXmin \<and> localXmin < cxmax - cxmin \<and> 0 \<le> localXmax \<and> localXmax < cxmax - cxmin
        \<and> 0 \<le> localYmin \<and> localYmin < cymax - cymin
        \<and> 0 \<le> localYmax \<and> localYmax < cymax - cymin)"

section \<open>The counting loop in closed form\<close>

lemma count_loop_closed:
  assumes "0 < s"
  shows "count_loop w s t n =
           Some (if t < w then (w, n)
                 else (w + s * ((t - w) div s + 1), n + ((t - w) div s + 1)))"
  using assms
proof (induction "nat (t + 1 - w)" arbitrary: w n rule: less_induct)
  case less
  show ?case
  proof (cases "w \<le> t")
    case False
    then show ?thesis by (subst count_loop.simps) simp
  next
    case True
    have smaller: "nat (t + 1 - (w + s)) < nat (t + 1 - w)"
      using True \<open>0 < s\<close> by simp
    have step: "count_loop w s t n = count_loop (w + s) s t (n + 1)"
      using True by (subst count_loop.simps) simp
    show ?thesis
    proof (cases "t < w + s")
      case True
      with \<open>w \<le> t\<close> have "(t - w) div s = 0"
        by (simp add: div_pos_pos_trivial)
      with True step less.hyps [OF smaller \<open>0 < s\<close>, of "n + 1"] show ?thesis
        using \<open>w \<le> t\<close> by simp
    next
      case False
      have "(t - w) div s = (t - (w + s)) div s + 1"
      proof -
        have e: "t - w = (t - (w + s)) + s" by simp
        from \<open>0 < s\<close> have "s \<noteq> 0" by simp
        then show ?thesis by (subst e) (rule div_add_self2)
      qed
      with False step less.hyps [OF smaller \<open>0 < s\<close>, of "n + 1"] show ?thesis
        using \<open>w \<le> t\<close> by (simp add: algebra_simps)
    qed
  qed
qed

lemma count_loop_count:
  assumes "0 < s"
  shows "count_loop w s t 0 = Some (w + s * countValidPatches w s t, countValidPatches w s t)"
  using assms by (simp add: count_loop_closed countValidPatches_def)

lemma get_valid_padding_closed:
  assumes "0 < sh" and "0 < sw"
  shows "get_valid_padding wh sh ih ww sw iw =
           Some (countValidPatches wh sh ih, countValidPatches ww sw iw)"
  using assms by (simp add: get_valid_padding_def count_loop_count)

text \<open>
  With a stride that does not advance and a window inside the image the far edge never
  passes the image: the loop has no result.
\<close>

lemma count_loop_Some_advances:
  assumes "count_loop w s t n = Some y"
  shows "s \<le> 0 \<longrightarrow> t < w"
proof (rule count_loop.raw_induct [where P = "\<lambda>w s t n y. s \<le> 0 \<longrightarrow> t < w", OF _ assms])
  fix f :: "int \<Rightarrow> int \<Rightarrow> int \<Rightarrow> int \<Rightarrow> (int \<times> int) option"
  fix w s t n :: int and y :: "int \<times> int"
  assume IH: "\<And>w s t n y. f w s t n = Some y \<Longrightarrow> s \<le> 0 \<longrightarrow> t < w"
  assume body: "(if w \<le> t then f (w + s) s t (n + 1) else Some (w, n)) = Some y"
  show "s \<le> 0 \<longrightarrow> t < w"
  proof (cases "w \<le> t")
    case True
    with body have "f (w + s) s t (n + 1) = Some y" by simp
    then have "s \<le> 0 \<longrightarrow> t < w + s" by (rule IH)
    then show ?thesis by auto
  next
    case False
    then show ?thesis by simp
  qed
qed

lemma count_loop_diverges:
  assumes "s \<le> 0" and "w \<le> t"
  shows "count_loop w s t n = None"
proof (cases "count_loop w s t n")
  case None
  then show ?thesis .
next
  case (Some y)
  from count_loop_Some_advances [OF Some] assms show ?thesis by simp
qed

lemma count_loop_stops:
  assumes "t < w"
  shows "count_loop w s t n = Some (w, n)"
  using assms by (subst count_loop.simps) simp

section \<open>Claims about the patch count\<close>

text \<open>
  C1. For positive window, stride and target dimensions the two counting loops of
  \<open>get_valid_padding\<close> return, and what they return is the closed form of the
  specification on each axis: \<open>0\<close> when the window is larger than the target,
  \<open>floor((target - window) / stride) + 1\<close> otherwise. At window 10, stride 5 and
  target 25 the count is 4.
\<close>

theorem get_valid_padding_is_countValidPatches:
  assumes "0 < wh" and "0 < sh" and "0 < ih" and "0 < ww" and "0 < sw" and "0 < iw"
  shows "get_valid_padding wh sh ih ww sw iw =
           Some (countValidPatches wh sh ih, countValidPatches ww sw iw)"
  using assms(2,5) by (rule get_valid_padding_closed)

theorem get_valid_padding_is_countValidPatches_witness:
  "(0::int) < 10 \<and> (0::int) < 5 \<and> (0::int) < 25 \<and>
   get_valid_padding 10 5 25 10 5 25 = Some (4, 4) \<and> countValidPatches 10 5 25 = 4"
  using get_valid_padding_is_countValidPatches [of 10 5 25 10 5 25]
  by (simp add: countValidPatches_def)

text \<open>
  C2. A stride that is not positive is not rejected anywhere. With the window inside the
  image the counting loop never returns: \<open>get_valid_padding\<close> and \<open>get_same_padding\<close>
  have no result at window 10, stride 0, image 100, and neither has \<open>divideIntoPatches\<close>
  called on a 100 by 100 image with a 10 by 10 window and the stride left out (its default
  is \<open>(0, 0)\<close>). With the window larger than the image the loop stops at once and
  \<open>get_valid_padding\<close> returns the count 0 as an ordinary result.
\<close>

theorem stride_zero_never_returns:
  "get_valid_padding 10 0 100 10 0 100 = None
   \<and> get_same_padding 10 0 100 10 0 100 = None
   \<and> divideIntoPatches (Some 100) (Some 100) (Some (10, 10)) None None None = None
   \<and> get_valid_padding 10 0 5 10 0 5 = Some (0, 0)"
  by (simp add: divideIntoPatches_def window_and_stride_def valid_patches_def
        get_valid_padding_def get_same_padding_def count_loop_diverges count_loop_stops)

section \<open>The zeros for an exact fit\<close>

lemma div_bounds:
  fixes a s :: int
  assumes "0 < s"
  shows "s * (a div s) \<le> a" and "a < s * (a div s) + s"
proof -
  have e: "s * (a div s) + a mod s = a" by (rule mult_div_mod_eq)
  have "0 \<le> a mod s" and "a mod s < s" using assms by simp_all
  with e show "s * (a div s) \<le> a" and "a < s * (a div s) + s" by linarith+
qed

text \<open>
  One axis of \<open>get_same_padding\<close> after the counting loop: the far edge moved back by
  one stride is the specification's fitted extent, and the \<open>assert\<close> fails exactly when
  the window exceeds the image by more than one stride.
\<close>

lemma same_axis:
  assumes "0 < s"
  shows "(if (w + s * countValidPatches w s t) - s = t then Inr 0
          else if (w + s * countValidPatches w s t) - s < t
            then Inr (((w + s * countValidPatches w s t) - s + s) - t)
          else Inl AssertionError)
         = (if t < w - s then Inl AssertionError else Inr (computeSamePadding w s t))"
proof (cases "t < w")
  case True
  then show ?thesis
    by (simp add: countValidPatches_def computeSamePadding_def Let_def)
next
  case False
  define q where "q = (t - w) div s"
  have c: "countValidPatches w s t = q + 1"
    using False by (simp add: countValidPatches_def q_def)
  from div_bounds [OF assms, of "t - w"] have b: "s * q \<le> t - w" "t - w < s * q + s"
    by (simp_all add: q_def)
  have "\<not> t < w - s" using False assms by simp
  with b show ?thesis
    by (simp add: c computeSamePadding_def Let_def algebra_simps)
qed

lemma computeSamePadding_nonneg:
  assumes "0 < s" and "w - s \<le> t"
  shows "0 \<le> computeSamePadding w s t"
proof (cases "t < w")
  case True
  with assms show ?thesis
    by (simp add: countValidPatches_def computeSamePadding_def Let_def)
next
  case False
  define q where "q = (t - w) div s"
  have c: "countValidPatches w s t = q + 1"
    using False by (simp add: countValidPatches_def q_def)
  from div_bounds [OF assms(1), of "t - w"] have b: "s * q \<le> t - w" "t - w < s * q + s"
    by (simp_all add: q_def)
  with b show ?thesis
    by (simp add: c computeSamePadding_def Let_def algebra_simps)
qed

lemma get_same_padding_closed:
  assumes "0 < sh" and "0 < sw"
  shows "get_same_padding wh sh ih ww sw iw =
           Some (if ih < wh - sh \<or> iw < ww - sw then Inl AssertionError
                 else Inr (computeSamePadding wh sh ih, computeSamePadding ww sw iw))"
  using assms
  by (simp add: get_same_padding_def count_loop_count same_axis Let_def)

text \<open>
  C3, as the claim states it, fails: with window 10, stride 5 and target 3 the fitted
  extent is \<open>10 - 5 = 5\<close>, the specification's formula gives \<open>5 + 5 - 3 = 7\<close> zeros, and
  \<open>get_same_padding\<close> fails its \<open>assert\<close> instead of returning them.
\<close>

theorem get_same_padding_window_beyond_target:
  "get_same_padding 10 5 3 10 5 3 = Some (Inl AssertionError)
   \<and> computeSamePadding 10 5 3 = 7"
  by (simp add: get_same_padding_closed computeSamePadding_def countValidPatches_def)

text \<open>
  C3, amended. For positive window, stride and target dimensions \<open>get_same_padding\<close>
  returns. When on each axis the window exceeds the target by at most one stride (so
  whenever the window fits the target) it returns the specification's zeros: \<open>0\<close> when
  the fitted extent equals the target, the fitted extent plus one stride minus the target
  otherwise, and they are not negative. When on some axis the window exceeds the target by
  more than one stride it fails the \<open>assert\<close>. At window 10, stride 5 and target 23 the
  zeros are 2.
\<close>

theorem get_same_padding_is_computeSamePadding:
  assumes "0 < wh" and "0 < sh" and "0 < ih" and "0 < ww" and "0 < sw" and "0 < iw"
  shows "get_same_padding wh sh ih ww sw iw =
           Some (if ih < wh - sh \<or> iw < ww - sw then Inl AssertionError
                 else Inr (computeSamePadding wh sh ih, computeSamePadding ww sw iw))
         \<and> (wh - sh \<le> ih \<longrightarrow> 0 \<le> computeSamePadding wh sh ih)
         \<and> (ww - sw \<le> iw \<longrightarrow> 0 \<le> computeSamePadding ww sw iw)"
  using assms(2,5) by (simp add: get_same_padding_closed computeSamePadding_nonneg)

theorem get_same_padding_is_computeSamePadding_witness:
  "(0::int) < 10 \<and> (0::int) < 5 \<and> (0::int) < 23 \<and> (10::int) - 5 \<le> 23
   \<and> get_same_padding 10 5 23 10 5 23 = Some (Inr (2, 2))
   \<and> computeSamePadding 10 5 23 = 2"
  using get_same_padding_is_computeSamePadding [of 10 5 23 10 5 23]
  by (simp add: computeSamePadding_def countValidPatches_def)

section \<open>The crop around the bounding boxes\<close>

lemma space_on_x_bounds:
  assumes "0 \<le> xmin" "xmin \<le> xmax" "xmax \<le> fw" "0 \<le> l" "0 \<le> r"
  shows "0 \<le> fst (space_on_x xmin xmax l r fw)"
    and "fst (space_on_x xmin xmax l r fw) \<le> xmin"
    and "xmax \<le> snd (space_on_x xmin xmax l r fw)"
    and "snd (space_on_x xmin xmax l r fw) \<le> fw"
  using assms by (simp_all add: space_on_x_def Let_def)

lemma space_on_y_bounds:
  assumes "0 \<le> ymin" "ymin \<le> ymax" "ymax \<le> fh" "0 \<le> b" "b \<le> t" "t \<le> b + 1"
  shows "0 \<le> fst (space_on_y ymin ymax t b fh)"
    and "fst (space_on_y ymin ymax t b fh) \<le> ymin"
    and "ymax \<le> snd (space_on_y ymin ymax t b fh)"
    and "snd (space_on_y ymin ymax t b fh) \<le> fh"
  using assms by (simp_all add: space_on_y_def Let_def)

lemma axis_offset_pos: "0 < axis_offset r m"
  by (simp add: axis_offset_def)

lemma adjustImage_eq:
  assumes "boxes \<noteq> []"
  shows "adjustImage (Some fh) (Some fw) (Some boxes) (Some off) =
           (let xmin = Min (set (x_coordinates boxes));
                xmax = Max (set (x_coordinates boxes));
                ymin = Min (set (y_coordinates boxes));
                ymax = Max (set (y_coordinates boxes));
                ox = axis_offset (xmax - xmin) (fst (used_offset fh fw off));
                oy = axis_offset (ymax - ymin) (snd (used_offset fh fw off));
                X = space_on_x xmin xmax (ox div 2) (ox - ox div 2) fw;
                Y = space_on_y ymin ymax (oy - oy div 2) (oy div 2) fh
            in Inr (fst X, fst Y, snd X, snd Y))"
  using assms by (simp add: adjustImage_def Let_def split: prod.splits)

lemma x_coordinates_set:
  "set (x_coordinates boxes) =
     set (map (\<lambda>(xmin, ymin, xmax, ymax). xmin) boxes)
     \<union> set (map (\<lambda>(xmin, ymin, xmax, ymax). xmax) boxes)"
  by (induction boxes) (auto simp: x_coordinates_def)

lemma y_coordinates_set:
  "set (y_coordinates boxes) =
     set (map (\<lambda>(xmin, ymin, xmax, ymax). ymin) boxes)
     \<union> set (map (\<lambda>(xmin, ymin, xmax, ymax). ymax) boxes)"
  by (induction boxes) (auto simp: y_coordinates_def)

lemma x_coordinates_inside:
  assumes "list_all (inside_frame fw fh) boxes" and "c \<in> set (x_coordinates boxes)"
  shows "0 \<le> c \<and> c \<le> fw"
  using assms by (auto simp: x_coordinates_set list_all_iff inside_frame_def)

lemma y_coordinates_inside:
  assumes "list_all (inside_frame fw fh) boxes" and "c \<in> set (y_coordinates boxes)"
  shows "0 \<le> c \<and> c \<le> fh"
  using assms by (auto simp: y_coordinates_set list_all_iff inside_frame_def)

lemma Min_Max_bounds:
  fixes S :: "int set"
  assumes "finite S" "S \<noteq> {}" "\<And>c. c \<in> S \<Longrightarrow> lo \<le> c \<and> c \<le> hi"
  shows "lo \<le> Min S" "Min S \<le> Max S" "Max S \<le> hi"
  using assms by (simp_all add: Min_le_iff)

lemma space_on_x_room:
  assumes "0 \<le> xmin - l" and "xmax + r \<le> fw"
  shows "space_on_x xmin xmax l r fw = (xmin - l, xmax + r)"
  using assms by (simp add: space_on_x_def Let_def)

lemma space_on_y_room:
  assumes "0 \<le> ymin - t" and "ymax + b \<le> fh"
  shows "fst (space_on_y ymin ymax t b fh) = ymin - t"
    and "t = b \<or> ymax + b = fh \<Longrightarrow> snd (space_on_y ymin ymax t b fh) = ymax + b"
  using assms by (auto simp add: space_on_y_def Let_def)

lemma coordinates_union:
  assumes "boxes \<noteq> []" and "list_all ordered_box boxes"
  shows "(Min (set (x_coordinates boxes)), Min (set (y_coordinates boxes)),
          Max (set (x_coordinates boxes)), Max (set (y_coordinates boxes))) = union_box boxes"
proof -
  let ?x0 = "set (map (\<lambda>(xmin, ymin, xmax, ymax). xmin) boxes)"
  let ?x1 = "set (map (\<lambda>(xmin, ymin, xmax, ymax). xmax) boxes)"
  let ?y0 = "set (map (\<lambda>(xmin, ymin, xmax, ymax). ymin) boxes)"
  let ?y1 = "set (map (\<lambda>(xmin, ymin, xmax, ymax). ymax) boxes)"
  have ne: "?x0 \<noteq> {}" "?x1 \<noteq> {}" "?y0 \<noteq> {}" "?y1 \<noteq> {}"
    using assms(1) by simp_all
  have ord: "\<And>a b c d. (a, b, c, d) \<in> set boxes \<Longrightarrow> a \<le> c \<and> b \<le> d"
    using assms(2) by (auto simp: list_all_iff ordered_box_def)
  have "Min ?x0 \<le> Min ?x1"
    using ne ord by (subst Min_ge_iff) (force simp: Min_le_iff)+
  then have a: "Min (?x0 \<union> ?x1) = Min ?x0"
    using ne by (simp add: Min_Un)
  have "Max ?x0 \<le> Max ?x1"
    using ne ord by (subst Max_le_iff) (force simp: Max_ge_iff)+
  then have b: "Max (?x0 \<union> ?x1) = Max ?x1"
    using ne by (simp add: Max_Un)
  have "Min ?y0 \<le> Min ?y1"
    using ne ord by (subst Min_ge_iff) (force simp: Min_le_iff)+
  then have c: "Min (?y0 \<union> ?y1) = Min ?y0"
    using ne by (simp add: Min_Un)
  have "Max ?y0 \<le> Max ?y1"
    using ne ord by (subst Max_le_iff) (force simp: Max_ge_iff)+
  then have d: "Max (?y0 \<union> ?y1) = Max ?y1"
    using ne by (simp add: Max_Un)
  show ?thesis
    unfolding x_coordinates_set y_coordinates_set union_box_def a b c d ..
qed

text \<open>
  C4. For a non-empty list of boxes that lie inside the frame and margins that are not
  negative, \<open>adjustImage\<close> returns a crop rectangle that lies within the frame and
  encloses the union box: \<open>0 \<le> minX \<le> unionXmin\<close>, \<open>unionXmax \<le> maxX \<le> frameWidth\<close>,
  and the same on the y axis.
\<close>

theorem adjustImage_within_frame_encloses_union:
  assumes "boxes \<noteq> []"
    and "list_all (inside_frame frameWidth frameHeight) boxes"
    and "0 \<le> marginWidth" and "0 \<le> marginHeight"
  shows "\<exists>minX minY maxX maxY.
           adjustImage (Some frameHeight) (Some frameWidth) (Some boxes)
             (Some (marginWidth, marginHeight)) = Inr (minX, minY, maxX, maxY)
           \<and> (case union_box boxes of (unionXmin, unionYmin, unionXmax, unionYmax) \<Rightarrow>
                0 \<le> minX \<and> minX \<le> unionXmin \<and> unionXmax \<le> maxX \<and> maxX \<le> frameWidth
                \<and> 0 \<le> minY \<and> minY \<le> unionYmin \<and> unionYmax \<le> maxY \<and> maxY \<le> frameHeight)"
proof -
  define xs where "xs = set (x_coordinates boxes)"
  define ys where "ys = set (y_coordinates boxes)"
  define ox where "ox = axis_offset (Max xs - Min xs)
                          (fst (used_offset frameHeight frameWidth (marginWidth, marginHeight)))"
  define oy where "oy = axis_offset (Max ys - Min ys)
                          (snd (used_offset frameHeight frameWidth (marginWidth, marginHeight)))"
  define X where "X = space_on_x (Min xs) (Max xs) (ox div 2) (ox - ox div 2) frameWidth"
  define Y where "Y = space_on_y (Min ys) (Max ys) (oy - oy div 2) (oy div 2) frameHeight"
  have res: "adjustImage (Some frameHeight) (Some frameWidth) (Some boxes)
               (Some (marginWidth, marginHeight)) = Inr (fst X, fst Y, snd X, snd Y)"
    using assms(1) by (simp add: adjustImage_eq Let_def X_def Y_def ox_def oy_def xs_def ys_def)
  have fin: "finite xs" "finite ys" by (simp_all add: xs_def ys_def)
  have ne: "xs \<noteq> {}" "ys \<noteq> {}"
    using assms(1) by (cases boxes; simp add: xs_def ys_def x_coordinates_set y_coordinates_set)+
  have xb: "0 \<le> Min xs" "Min xs \<le> Max xs" "Max xs \<le> frameWidth"
    using Min_Max_bounds [OF fin(1) ne(1), of 0 frameWidth]
      x_coordinates_inside [OF assms(2)] by (simp_all add: xs_def)
  have yb: "0 \<le> Min ys" "Min ys \<le> Max ys" "Max ys \<le> frameHeight"
    using Min_Max_bounds [OF fin(2) ne(2), of 0 frameHeight]
      y_coordinates_inside [OF assms(2)] by (simp_all add: ys_def)
  have "0 < ox" "0 < oy" by (simp_all add: ox_def oy_def axis_offset_pos)
  then have halves: "0 \<le> ox div 2" "0 \<le> ox - ox div 2" "0 \<le> oy div 2"
    "oy div 2 \<le> oy - oy div 2" "oy - oy div 2 \<le> oy div 2 + 1"
    by presburger+
  note Xb = space_on_x_bounds [OF xb halves(1,2), folded X_def]
  note Yb = space_on_y_bounds [OF yb halves(3,4,5), folded Y_def]
  have ux: "Min xs \<le> Min (set (map (\<lambda>(xmin, ymin, xmax, ymax). xmin) boxes))"
    using assms(1) by (intro Min_antimono) (auto simp: xs_def x_coordinates_set)
  have uX: "Max (set (map (\<lambda>(xmin, ymin, xmax, ymax). xmax) boxes)) \<le> Max xs"
    using assms(1) by (intro Max_mono) (auto simp: xs_def x_coordinates_set)
  have uy: "Min ys \<le> Min (set (map (\<lambda>(xmin, ymin, xmax, ymax). ymin) boxes))"
    using assms(1) by (intro Min_antimono) (auto simp: ys_def y_coordinates_set)
  have uY: "Max (set (map (\<lambda>(xmin, ymin, xmax, ymax). ymax) boxes)) \<le> Max ys"
    using assms(1) by (intro Max_mono) (auto simp: ys_def y_coordinates_set)
  from Xb Yb ux uX uy uY show ?thesis
    unfolding res union_box_def by simp
qed


theorem adjustImage_within_frame_encloses_union_witness:
  "[(2, 3, 20, 20), (90, 30, 100, 40)] \<noteq> ([] :: box list)
   \<and> list_all (inside_frame 100 60) [(2, 3, 20, 20), (90, 30, 100, 40)]
   \<and> (\<exists>minX minY maxX maxY.
         adjustImage (Some 60) (Some 100) (Some [(2, 3, 20, 20), (90, 30, 100, 40)])
           (Some (50, 30)) = Inr (minX, minY, maxX, maxY)
         \<and> 0 \<le> minX \<and> minX \<le> 2 \<and> 100 \<le> maxX \<and> maxX \<le> 100
         \<and> 0 \<le> minY \<and> minY \<le> 3 \<and> 40 \<le> maxY \<and> maxY \<le> 60)"
  using adjustImage_within_frame_encloses_union
    [of "[(2, 3, 20, 20), (90, 30, 100, 40)]" 100 60 50 30]
  by (simp add: union_box_def inside_frame_def)

text \<open>
  C5, as the claim states it, fails: in a 100 by 100 frame with the single box
  \<open>(40, 40, 70, 70)\<close> and the offset \<open>(35, 5)\<close> the specification adds
  \<open>max(10, 35 - 30) = 10\<close> on the width axis and describes the crop \<open>(35, 75)\<close> there,
  which is inside the frame; \<open>adjustImage\<close> adds \<open>35 - 30 = 5\<close> and returns \<open>(38, 73)\<close>.
\<close>

theorem adjustImage_adds_less_than_ten:
  "adjustImage (Some 100) (Some 100) (Some [(40, 40, 70, 70)]) (Some (35, 5))
     = Inr (38, 35, 73, 75)
   \<and> union_box [(40, 40, 70, 70)] = (40, 40, 70, 70)
   \<and> spec_crop_width 40 70 35 = (35, 75)
   \<and> spec_crop_height 40 70 5 = (35, 75)"
  by (simp add: adjustImage_def used_offset_def x_coordinates_def y_coordinates_def
        axis_offset_def space_on_x_def space_on_y_def Let_def union_box_def
        spec_crop_width_def spec_crop_height_def spec_extra_def)

text \<open>
  On the height axis, with room on both sides, the lower edge is moved by the top offset:
  with an odd space of 15 the box \<open>(40, 40, 60, 60)\<close> gets the lower edge \<open>60 + 8\<close>,
  where the x block, and the y block in its other branches, add the other half.
\<close>

lemma adjustImage_lower_edge_by_top_offset:
  "adjustImage (Some 100) (Some 100) (Some [(40, 40, 60, 60)]) (Some (5, 35))
     = Inr (35, 32, 65, 68)"
  by (simp add: adjustImage_def used_offset_def x_coordinates_def y_coordinates_def
        axis_offset_def space_on_x_def space_on_y_def Let_def)

text \<open>
  C5, amended. For a non-empty list of ordered boxes, with the offset that is in use (the
  given one, or the frame's smaller side minus 10 on both axes when the given one is not
  smaller than the frame): the space added on an axis is 10 when the union box spans the
  offset and the offset minus the span otherwise; it is split with the leading half
  rounded down on the width axis and the trailing half rounded down on the height axis;
  when both sides have room on the width axis the crop is exactly
  \<open>(unionMin - leading, unionMax + trailing)\<close>; when both sides have room on the height
  axis the crop starts at \<open>unionMin - leading\<close>, and it ends at \<open>unionMax + trailing\<close>
  when the added space is even or that end is the frame's edge.
\<close>

theorem adjustImage_room_on_both_sides:
  assumes "boxes \<noteq> []" and "list_all ordered_box boxes"
    and "union_box boxes = (unionXmin, unionYmin, unionXmax, unionYmax)"
    and "used_offset frameHeight frameWidth (marginWidth, marginHeight)
           = (widthOffset, heightOffset)"
  shows "\<exists>minX minY maxX maxY.
           adjustImage (Some frameHeight) (Some frameWidth) (Some boxes)
             (Some (marginWidth, marginHeight)) = Inr (minX, minY, maxX, maxY)
           \<and> (let extraX = (if unionXmax - unionXmin \<ge> widthOffset then 10
                            else widthOffset - (unionXmax - unionXmin));
                   leadingX = extraX div 2;
                   trailingX = extraX - leadingX;
                   extraY = (if unionYmax - unionYmin \<ge> heightOffset then 10
                            else heightOffset - (unionYmax - unionYmin));
                   trailingY = extraY div 2;
                   leadingY = extraY - trailingY
               in (0 \<le> unionXmin - leadingX \<and> unionXmax + trailingX \<le> frameWidth
                     \<longrightarrow> minX = unionXmin - leadingX \<and> maxX = unionXmax + trailingX)
                  \<and> (0 \<le> unionYmin - leadingY \<and> unionYmax + trailingY \<le> frameHeight
                     \<longrightarrow> minY = unionYmin - leadingY
                         \<and> (even extraY \<or> unionYmax + trailingY = frameHeight
                              \<longrightarrow> maxY = unionYmax + trailingY)))"
proof -
  define ox where "ox = axis_offset (unionXmax - unionXmin) widthOffset"
  define oy where "oy = axis_offset (unionYmax - unionYmin) heightOffset"
  define X where "X = space_on_x unionXmin unionXmax (ox div 2) (ox - ox div 2) frameWidth"
  define Y where "Y = space_on_y unionYmin unionYmax (oy - oy div 2) (oy div 2) frameHeight"
  from coordinates_union [OF assms(1,2)] assms(3)
  have co: "Min (set (x_coordinates boxes)) = unionXmin"
    "Min (set (y_coordinates boxes)) = unionYmin"
    "Max (set (x_coordinates boxes)) = unionXmax"
    "Max (set (y_coordinates boxes)) = unionYmax"
    by simp_all
  have res: "adjustImage (Some frameHeight) (Some frameWidth) (Some boxes)
               (Some (marginWidth, marginHeight)) = Inr (fst X, fst Y, snd X, snd Y)"
    using assms(1)
    by (simp add: adjustImage_eq Let_def co assms(4) X_def Y_def ox_def oy_def)
  have x: "0 \<le> unionXmin - ox div 2 \<and> unionXmax + (ox - ox div 2) \<le> frameWidth
             \<longrightarrow> fst X = unionXmin - ox div 2 \<and> snd X = unionXmax + (ox - ox div 2)"
    by (simp add: X_def space_on_x_room)
  have ev: "even oy \<Longrightarrow> oy - oy div 2 = oy div 2" by presburger
  have y: "0 \<le> unionYmin - (oy - oy div 2) \<and> unionYmax + oy div 2 \<le> frameHeight
             \<longrightarrow> fst Y = unionYmin - (oy - oy div 2)
                 \<and> (even oy \<or> unionYmax + oy div 2 = frameHeight
                      \<longrightarrow> snd Y = unionYmax + oy div 2)"
    using ev by (auto simp add: Y_def space_on_y_room)
  from x y show ?thesis
    unfolding res by (simp add: Let_def ox_def oy_def axis_offset_def)
qed

theorem adjustImage_room_on_both_sides_witness:
  "[(10, 10, 20, 20), (30, 30, 40, 40)] \<noteq> ([] :: box list)
   \<and> list_all ordered_box [(10, 10, 20, 20), (30, 30, 40, 40)]
   \<and> union_box [(10, 10, 20, 20), (30, 30, 40, 40)] = (10, 10, 40, 40)
   \<and> used_offset 100 100 (5, 5) = (5, 5)
   \<and> adjustImage (Some 100) (Some 100) (Some [(10, 10, 20, 20), (30, 30, 40, 40)])
        (Some (5, 5)) = Inr (5, 5, 45, 45)"
  using adjustImage_room_on_both_sides
    [of "[(10, 10, 20, 20), (30, 30, 40, 40)]" 10 10 40 40 100 100 5 5 5 5]
  by (auto simp: union_box_def ordered_box_def used_offset_def Let_def)

section \<open>The boxes inside a crop\<close>

text \<open>
  When every box has a name, the loop of \<open>includeBoundingBoxes\<close> never raises: it keeps
  the boxes contained in the crop, in their order, translated, and the names of the kept
  boxes beside them. A kept box with a positive width and height is returned within the
  crop's local extent.
\<close>

lemma include_loop_step:
  "include_loop edges (b # boundingBoxes) (name # names) newBoundingBoxes newNames =
     (if contained edges b
      then include_loop edges boundingBoxes names
             (newBoundingBoxes @ [translated edges b]) (newNames @ [name])
      else include_loop edges boundingBoxes names newBoundingBoxes newNames)"
  by (cases edges; cases b) (simp add: contained_def translated_def Let_def)

lemma include_loop_closed:
  assumes "length boundingBoxes \<le> length names"
  shows "include_loop edges boundingBoxes names newBoundingBoxes newNames =
           Inr (newBoundingBoxes
                  @ map (translated edges) (filter (contained edges) boundingBoxes),
                newNames
                  @ map snd (filter (\<lambda>(b, name). contained edges b) (zip boundingBoxes names)))"
  using assms
proof (induction boundingBoxes arbitrary: names newBoundingBoxes newNames)
  case Nil
  show ?case by simp
next
  case (Cons b boundingBoxes)
  then obtain name names' where n: "names = name # names'"
    by (cases names) simp_all
  with Cons.prems have "length boundingBoxes \<le> length names'" by simp
  then show ?case
    unfolding n include_loop_step by (simp add: Cons.IH)
qed

lemma translated_within_extent:
  assumes "contained edges (bxmin, bymin, bxmax, bymax)" and "bxmin < bxmax" and "bymin < bymax"
  shows "within_extent edges (translated edges (bxmin, bymin, bxmax, bymax))"
  using assms by (cases edges) (simp add: contained_def translated_def within_extent_def)

text \<open>
  C6. A box of no width and height at the crop's far corner is kept, and only its maximum
  is decremented: in the crop \<open>(0, 0, 10, 10)\<close> the box \<open>(10, 10, 10, 10)\<close> is returned
  as \<open>(10, 10, 9, 9)\<close>, whose minimum reaches the crop's local extent 10.
\<close>

theorem includeBoundingBoxes_flat_box_at_far_corner:
  "includeBoundingBoxes (Some (0, 0, 10, 10)) (Some [(10, 10, 10, 10)]) (Some [''a''])
     = Inr ([(10, 10, 9, 9)], [''a''])
   \<and> \<not> within_extent (0, 0, 10, 10) (10, 10, 9, 9)"
  by (simp add: includeBoundingBoxes_def within_extent_def)

section \<open>The grid of patches\<close>

text \<open>
  The two loops in closed form: row \<open>i\<close> of the grid holds the patches
  \<open>(j * strideWidth, i * strideHeight)\<close> to
  \<open>(window + j * strideWidth, window + i * strideHeight)\<close>, \<open>j\<close> from left to right.
\<close>

lemma patches_row_eq:
  "patches_row n sw sy ey sx ex acc =
     (sx + int n * sw, ex + int n * sw,
      acc @ map (\<lambda>j. (sx + int j * sw, sy, ex + int j * sw, ey)) [0..<n])"
proof (induction n arbitrary: sx ex acc)
  case 0
  show ?case by simp
next
  case (Suc n)
  have "map (\<lambda>j. (sx + int j * sw, sy, ex + int j * sw, ey)) [0..<Suc n]
          = (sx, sy, ex, ey) # map (\<lambda>j. (sx + sw + int j * sw, sy, ex + sw + int j * sw, ey)) [0..<n]"
    by (subst map_upt_Suc) (simp add: algebra_simps)
  then show ?case
    by (simp add: Suc.IH algebra_simps del: upt_Suc)
qed

lemma patches_rows_eq:
  "patches_rows m n ww sw sh sy ey 0 ww acc =
     acc @ concat (map (\<lambda>i. map (\<lambda>j. (int j * sw, sy + int i * sh,
                                          ww + int j * sw, ey + int i * sh)) [0..<n]) [0..<m])"
proof (induction m arbitrary: sy ey acc)
  case 0
  show ?case by simp
next
  case (Suc m)
  have "map (\<lambda>i. map (\<lambda>j. (int j * sw, sy + int i * sh,
                           ww + int j * sw, ey + int i * sh)) [0..<n]) [0..<Suc m]
          = map (\<lambda>j. (int j * sw, sy, ww + int j * sw, ey)) [0..<n]
            # map (\<lambda>i. map (\<lambda>j. (int j * sw, sy + sh + int i * sh,
                           ww + int j * sw, ey + sh + int i * sh)) [0..<n]) [0..<m]"
    by (subst map_upt_Suc) (simp add: algebra_simps)
  then show ?case
    by (simp add: Suc.IH patches_row_eq del: upt_Suc)
qed

lemma length_grid:
  "length (concat (map (\<lambda>i. map (f i) [0..<n]) [0..<m])) = m * n"
  by (induction m) simp_all

lemma nth_grid:
  assumes "i < m" and "j < n"
  shows "concat (map (\<lambda>i. map (f i) [0..<n]) [0..<m]) ! (i * n + j) = f i j"
  using assms(1)
proof (induction m)
  case 0
  then show ?case by simp
next
  case (Suc m)
  show ?case
  proof (cases "i < m")
    case True
    then have "i * n + j < m * n"
      using assms(2)
      by (metis Suc_leI add_less_cancel_left less_le_trans mult_Suc mult_le_mono1 add.commute)
    with True Suc.IH show ?thesis
      by (simp add: nth_append length_grid)
  next
    case False
    with Suc.prems have "i = m" by simp
    with assms(2) show ?thesis
      by (simp add: nth_append length_grid)
  qed
qed

lemma countValidPatches_nonneg:
  assumes "0 < s"
  shows "0 \<le> countValidPatches w s t"
  using assms by (simp add: countValidPatches_def pos_imp_zdiv_nonneg_iff)

lemma countValidPatches_pos:
  assumes "0 < s" and "w \<le> t"
  shows "1 \<le> countValidPatches w s t"
  using assms by (simp add: countValidPatches_def pos_imp_zdiv_nonneg_iff)

lemma valid_patches_closed:
  assumes "0 < sh" and "0 < sw"
  shows "valid_patches wh sh ih ww sw iw =
           Some (concat (map (\<lambda>i. map (\<lambda>j. (int j * sw, int i * sh,
                                               ww + int j * sw, wh + int i * sh))
                                    [0..<nat (countValidPatches ww sw iw)])
                           [0..<nat (countValidPatches wh sh ih)]),
                 countValidPatches wh sh ih, countValidPatches ww sw iw)"
  using assms
  by (simp add: valid_patches_def get_valid_padding_closed patches_rows_eq)


lemma window_and_stride_eq:
  "window_and_stride imageWidth imageHeight (windowWidth, windowHeight) (strideW, strideH) =
     (if windowWidth > imageWidth then imageWidth - 1 else windowWidth,
      if windowHeight > imageHeight then imageHeight - 1 else windowHeight,
      if strideW > imageWidth then imageWidth - 1 else strideW,
      if strideH > imageHeight then imageHeight - 1 else strideH)"
  by (simp add: window_and_stride_def Let_def)

lemma valid_patches_at_least_one:
  assumes "0 < sh" and "0 < sw" and "wh \<le> ih" and "ww \<le> iw"
  shows "\<exists>patches rowCount colCount.
           valid_patches wh sh ih ww sw iw = Some (patches, rowCount, colCount)
           \<and> 1 \<le> rowCount \<and> 1 \<le> colCount \<and> 1 \<le> length patches"
proof -
  have r: "1 \<le> countValidPatches wh sh ih" and c: "1 \<le> countValidPatches ww sw iw"
    using assms by (simp_all add: countValidPatches_pos)
  then have "1 \<le> nat (countValidPatches wh sh ih) * nat (countValidPatches ww sw iw)"
    by (simp add: Suc_le_eq)
  with r c show ?thesis
    using assms(1,2) by (simp add: valid_patches_closed length_grid)
qed

text \<open>
  C7. With the padding \<open>VALID_FIT_ALL\<close> a 10 by 10 image asked for 4 by 4 patches gets
  the window and stride \<open>floor(10 / 4) = 2\<close> on both axes, and five windows of 2 fit into
  10: \<open>divideIntoPatches\<close> returns 5 rows, 5 columns and 25 patches, not 16.
\<close>

theorem divideIntoPatches_FIT_ALL_more_patches:
  "\<exists>patches.
     divideIntoPatches (Some 10) (Some 10) None None (Some ''VALID_FIT_ALL'') (Some (4, 4))
       = Some (Inr (patches, 5, 5, None))
     \<and> length patches = 25"
  by (simp add: divideIntoPatches_def window_and_stride_def valid_patches_closed
        countValidPatches_def length_grid)


text \<open>
  C8. For the padding \<open>VALID\<close>, with the window and stride that are in use after the
  "too big" checks and both strides positive, \<open>divideIntoPatches\<close> returns; the number of
  rows and of columns are those of \<open>get_valid_padding\<close>, which are the closed form on each
  axis; the list holds rows times columns patches; and the patch at row \<open>i\<close> and column
  \<open>j\<close> is at position \<open>i * colCount + j\<close> of the list and is
  \<open>(j * strideWidth, i * strideHeight, j * strideWidth + windowWidth,
  i * strideHeight + windowHeight)\<close>, so the first one starts at \<open>(0, 0)\<close>.
\<close>

theorem divideIntoPatches_VALID_row_major:
  assumes "window_and_stride imageWidth imageHeight slideWindowSize strideSize
             = (slideWindowWidth, slideWindowHeight, strideWidth, strideHeight)"
    and "0 < strideWidth" and "0 < strideHeight"
  shows "\<exists>patches rowCount colCount.
           divideIntoPatches (Some imageWidth) (Some imageHeight) (Some slideWindowSize)
             (Some strideSize) (Some ''VALID'') numberPatches
             = Some (Inr (patches, rowCount, colCount, None))
           \<and> get_valid_padding slideWindowHeight strideHeight imageHeight
                slideWindowWidth strideWidth imageWidth = Some (rowCount, colCount)
           \<and> rowCount = countValidPatches slideWindowHeight strideHeight imageHeight
           \<and> colCount = countValidPatches slideWindowWidth strideWidth imageWidth
           \<and> int (length patches) = rowCount * colCount
           \<and> (\<forall>i < nat rowCount. \<forall>j < nat colCount.
                 patches ! (i * nat colCount + j)
                   = (int j * strideWidth, int i * strideHeight,
                      int j * strideWidth + slideWindowWidth,
                      int i * strideHeight + slideWindowHeight))"
proof -
  define r where "r = countValidPatches slideWindowHeight strideHeight imageHeight"
  define c where "c = countValidPatches slideWindowWidth strideWidth imageWidth"
  define f where "f = (\<lambda>i j. (int j * strideWidth, int i * strideHeight,
                               slideWindowWidth + int j * strideWidth,
                               slideWindowHeight + int i * strideHeight))"
  define grid where "grid = concat (map (\<lambda>i. map (f i) [0..<nat c]) [0..<nat r])"
  have nonneg: "0 \<le> r" "0 \<le> c"
    using assms(2,3) by (simp_all add: r_def c_def countValidPatches_nonneg)
  have vp: "valid_patches slideWindowHeight strideHeight imageHeight
              slideWindowWidth strideWidth imageWidth = Some (grid, r, c)"
    using assms(2,3) by (simp add: valid_patches_closed grid_def f_def r_def c_def)
  have res: "divideIntoPatches (Some imageWidth) (Some imageHeight) (Some slideWindowSize)
               (Some strideSize) (Some ''VALID'') numberPatches = Some (Inr (grid, r, c, None))"
    by (simp add: divideIntoPatches_def assms(1) vp)
  have gv: "get_valid_padding slideWindowHeight strideHeight imageHeight
              slideWindowWidth strideWidth imageWidth = Some (r, c)"
    using assms(2,3) by (simp add: get_valid_padding_closed r_def c_def)
  have len: "int (length grid) = r * c"
    using nonneg by (simp add: grid_def length_grid)
  have nth: "\<forall>i < nat r. \<forall>j < nat c. grid ! (i * nat c + j) = f i j"
    by (simp add: grid_def nth_grid)
  from res gv len nth show ?thesis
    by (simp add: f_def r_def c_def add.commute)
qed

theorem divideIntoPatches_VALID_row_major_witness:
  "window_and_stride 25 25 (10, 10) (5, 5) = (10, 10, 5, 5)
   \<and> (\<exists>patches.
         divideIntoPatches (Some 25) (Some 25) (Some (10, 10)) (Some (5, 5)) (Some ''VALID'') None
           = Some (Inr (patches, 4, 4, None))
         \<and> length patches = 16
         \<and> patches ! 0 = (0, 0, 10, 10)
         \<and> patches ! 6 = (10, 5, 20, 15))"
proof -
  have ws: "window_and_stride 25 25 (10, 10) (5, 5) = (10, 10, 5, 5)"
    by (simp add: window_and_stride_def)
  have cv: "countValidPatches 10 5 25 = 4"
    by (simp add: countValidPatches_def)
  from divideIntoPatches_VALID_row_major [OF ws, of None]
  obtain patches where
    res: "divideIntoPatches (Some 25) (Some 25) (Some (10, 10)) (Some (5, 5)) (Some ''VALID'') None
            = Some (Inr (patches, 4, 4, None))"
    and len: "int (length patches) = 4 * 4"
    and nth: "\<forall>i < nat 4. \<forall>j < nat 4.
                patches ! (i * nat 4 + j) = (int j * 5, int i * 5, int j * 5 + 10, int i * 5 + 10)"
    by (auto simp: cv)
  from nth have "patches ! (0 * nat 4 + 0) = (int 0 * 5, int 0 * 5, int 0 * 5 + 10, int 0 * 5 + 10)"
    by (intro nth [rule_format]) simp_all
  then have p0: "patches ! 0 = (0, 0, 10, 10)" by simp
  from nth have "patches ! (1 * nat 4 + 2) = (int 2 * 5, int 1 * 5, int 2 * 5 + 10, int 1 * 5 + 10)"
    by (intro nth [rule_format]) simp_all
  then have p6: "patches ! 6 = (10, 5, 20, 15)" by simp
  from len have "length patches = 16" by simp
  with ws res p0 p6 show ?thesis by simp
qed

text \<open>
  C10, as the claim states it, fails: on a frame of one pixel an oversized window, and an
  oversized stride, become \<open>1 - 1 = 0\<close>, which is below 1; with the stride 0 the call
  does not return.
\<close>

theorem window_and_stride_below_one:
  "window_and_stride 1 1 (5, 5) (1, 1) = (0, 0, 1, 1)
   \<and> window_and_stride 1 1 (1, 1) (5, 5) = (1, 1, 0, 0)
   \<and> divideIntoPatches (Some 1) (Some 1) (Some (1, 1)) (Some (5, 5)) (Some ''VALID'') None = None"
  by (simp add: window_and_stride_eq divideIntoPatches_def valid_patches_def
        get_valid_padding_def count_loop_diverges)



text \<open>
  C10, amended. A window or stride dimension that exceeds the frame dimension becomes the
  frame dimension minus 1 (at least 1 only for a frame dimension of at least 2), and the
  others are kept. The window then fits the frame, so when both strides in use are
  positive a call with the padding \<open>VALID\<close> or \<open>SAME\<close> returns at least one row, one
  column and one patch.
\<close>

theorem divideIntoPatches_oversized_window:
  assumes "window_and_stride imageWidth imageHeight (windowWidth, windowHeight)
             (strideW, strideH)
             = (slideWindowWidth, slideWindowHeight, strideWidth, strideHeight)"
    and "0 < strideWidth" and "0 < strideHeight"
    and "padding = ''VALID'' \<or> padding = ''SAME''"
  shows "slideWindowWidth = (if windowWidth > imageWidth then imageWidth - 1 else windowWidth)
         \<and> slideWindowHeight
             = (if windowHeight > imageHeight then imageHeight - 1 else windowHeight)
         \<and> strideWidth = (if strideW > imageWidth then imageWidth - 1 else strideW)
         \<and> strideHeight = (if strideH > imageHeight then imageHeight - 1 else strideH)
         \<and> (\<exists>patches rowCount colCount zeros.
               divideIntoPatches (Some imageWidth) (Some imageHeight)
                 (Some (windowWidth, windowHeight)) (Some (strideW, strideH)) (Some padding)
                 numberPatches = Some (Inr (patches, rowCount, colCount, zeros))
               \<and> 1 \<le> rowCount \<and> 1 \<le> colCount \<and> 1 \<le> length patches)"
proof -
  from assms(1) have clamp:
    "slideWindowWidth = (if windowWidth > imageWidth then imageWidth - 1 else windowWidth)"
    "slideWindowHeight = (if windowHeight > imageHeight then imageHeight - 1 else windowHeight)"
    "strideWidth = (if strideW > imageWidth then imageWidth - 1 else strideW)"
    "strideHeight = (if strideH > imageHeight then imageHeight - 1 else strideH)"
    by (simp_all add: window_and_stride_eq)
  then have fits: "slideWindowHeight \<le> imageHeight" "slideWindowWidth \<le> imageWidth"
    by (simp_all split: if_splits)
  have "\<exists>patches rowCount colCount zeros.
          divideIntoPatches (Some imageWidth) (Some imageHeight)
            (Some (windowWidth, windowHeight)) (Some (strideW, strideH)) (Some padding)
            numberPatches = Some (Inr (patches, rowCount, colCount, zeros))
          \<and> 1 \<le> rowCount \<and> 1 \<le> colCount \<and> 1 \<le> length patches"
  proof (cases "padding = ''VALID''")
    case True
    from valid_patches_at_least_one [OF assms(3,2) fits]
    obtain patches rowCount colCount where
      "valid_patches slideWindowHeight strideHeight imageHeight
         slideWindowWidth strideWidth imageWidth = Some (patches, rowCount, colCount)"
      "1 \<le> rowCount" "1 \<le> colCount" "1 \<le> length patches"
      by blast
    then show ?thesis
      by (simp add: divideIntoPatches_def assms(1) True)
  next
    case False
    with assms(4) have same: "padding = ''SAME''" by simp
    define zh where "zh = computeSamePadding slideWindowHeight strideHeight imageHeight"
    define zw where "zw = computeSamePadding slideWindowWidth strideWidth imageWidth"
    have z: "0 \<le> zh" "0 \<le> zw"
      using fits assms(2,3) by (simp_all add: zh_def zw_def computeSamePadding_nonneg)
    have gs: "get_same_padding slideWindowHeight strideHeight imageHeight
                slideWindowWidth strideWidth imageWidth = Some (Inr (zh, zw))"
      using fits assms(2,3) by (simp add: get_same_padding_closed zh_def zw_def)
    have fits': "slideWindowHeight \<le> imageHeight + zh" "slideWindowWidth \<le> imageWidth + zw"
      using fits z by simp_all
    from valid_patches_at_least_one [OF assms(3,2) fits']
    obtain patches rowCount colCount where
      "valid_patches slideWindowHeight strideHeight (imageHeight + zh)
         slideWindowWidth strideWidth (imageWidth + zw) = Some (patches, rowCount, colCount)"
      "1 \<le> rowCount" "1 \<le> colCount" "1 \<le> length patches"
      by blast
    then show ?thesis
      by (simp add: divideIntoPatches_def assms(1) same gs)
  qed
  with clamp show ?thesis by blast
qed

theorem divideIntoPatches_oversized_window_witness:
  "window_and_stride 20 20 (50, 10) (5, 5) = (19, 10, 5, 5)
   \<and> (\<exists>patches rowCount colCount zeros.
         divideIntoPatches (Some 20) (Some 20) (Some (50, 10)) (Some (5, 5)) (Some ''VALID'') None
           = Some (Inr (patches, rowCount, colCount, zeros))
         \<and> 1 \<le> rowCount \<and> 1 \<le> colCount \<and> 1 \<le> length patches)"
  using divideIntoPatches_oversized_window [of 20 20 50 10 5 5 19 10 5 5 "''VALID''" None]
  by (simp add: window_and_stride_eq)

section \<open>Padding a frame with zeros\<close>

lemma half_zeros_eq:
  "half_zeros zeros = (zeros + 1) div 2"
  unfolding half_zeros_def by presburger

lemma lazySAMEpad_BOTH_SIDES:
  assumes "0 \<le> zeros_h" and "0 \<le> zeros_w"
  shows "lazySAMEpad fr zeros_h zeros_w ''BOTH_SIDES'' =
           Inr (Some \<lparr>cols = nat ((zeros_w + 1) div 2) * 2 + cols fr,
                      pixels =
                        np_zeros (nat ((zeros_h + 1) div 2))
                          (nat ((zeros_w + 1) div 2) * 2 + cols fr)
                        @ map (\<lambda>row. replicate (nat ((zeros_w + 1) div 2)) (0, 0, 0) @ row
                                       @ replicate (nat ((zeros_w + 1) div 2)) (0, 0, 0))
                            (pixels fr)
                        @ np_zeros (nat ((zeros_h + 1) div 2))
                            (nat ((zeros_w + 1) div 2) * 2 + cols fr)\<rparr>)"
proof -
  have "0 \<le> (zeros_h + 1) div 2" "0 \<le> (zeros_w + 1) div 2"
    using assms by simp_all
  then show ?thesis
    by (simp add: lazySAMEpad_def half_zeros_eq Let_def np_zeros_def
          replicate_add [symmetric] mult_2_right add.assoc [symmetric])
qed


text \<open>
  C9, as the claim states it, fails: a frame of one pixel padded by 1 on both axes with
  \<open>BOTH_SIDES\<close> becomes 3 by 3, not 2 by 2, and the leading side gets one row and one
  column of zeros, not \<open>floor(1 / 2) = 0\<close>.
\<close>

theorem lazySAMEpad_odd_amount_adds_one_more:
  "lazySAMEpad \<lparr>cols = 1, pixels = [[(7, 7, 7)]]\<rparr> 1 1 ''BOTH_SIDES'' =
     Inr (Some \<lparr>cols = 3,
                pixels = [[(0, 0, 0), (0, 0, 0), (0, 0, 0)],
                          [(0, 0, 0), (7, 7, 7), (0, 0, 0)],
                          [(0, 0, 0), (0, 0, 0), (0, 0, 0)]]\<rparr>)"
  by (simp add: lazySAMEpad_def half_zeros_def np_zeros_def)

text \<open>
  C9, amended. For a well-shaped frame and amounts that are not negative, \<open>lazySAMEpad\<close>
  with \<open>BOTH_SIDES\<close> puts \<open>ceil(amount / 2)\<close> zero pixels on each of the two sides of
  an axis, around the frame's own pixels: the result has
  \<open>origHeight + 2 * ceil(zerosHeight / 2)\<close> rows and
  \<open>origWidth + 2 * ceil(zerosWidth / 2)\<close> columns, which is the original size plus the
  amount for an even amount and plus the amount and 1 for an odd one.
\<close>

theorem lazySAMEpad_both_sides_rounds_up:
  assumes "well_shaped fr" and "0 \<le> zeros_h" and "0 \<le> zeros_w"
  shows "\<exists>out.
           lazySAMEpad fr zeros_h zeros_w ''BOTH_SIDES'' = Inr (Some out)
           \<and> well_shaped out
           \<and> rows out = rows fr + 2 * nat ((zeros_h + 1) div 2)
           \<and> cols out = cols fr + 2 * nat ((zeros_w + 1) div 2)
           \<and> pixels out =
               np_zeros (nat ((zeros_h + 1) div 2)) (cols out)
               @ map (\<lambda>row. replicate (nat ((zeros_w + 1) div 2)) (0, 0, 0) @ row
                              @ replicate (nat ((zeros_w + 1) div 2)) (0, 0, 0))
                   (pixels fr)
               @ np_zeros (nat ((zeros_h + 1) div 2)) (cols out)
           \<and> int (rows out) = int (rows fr) + (if even zeros_h then zeros_h else zeros_h + 1)
           \<and> int (cols out) = int (cols fr) + (if even zeros_w then zeros_w else zeros_w + 1)"
proof -
  define h where "h = nat ((zeros_h + 1) div 2)"
  define w where "w = nat ((zeros_w + 1) div 2)"
  define out where
    "out = \<lparr>cols = w * 2 + cols fr,
            pixels = np_zeros h (w * 2 + cols fr)
                     @ map (\<lambda>row. replicate w (0, 0, 0) @ row @ replicate w (0, 0, 0)) (pixels fr)
                     @ np_zeros h (w * 2 + cols fr)\<rparr>"
  have res: "lazySAMEpad fr zeros_h zeros_w ''BOTH_SIDES'' = Inr (Some out)"
    using assms(2,3) by (simp add: lazySAMEpad_BOTH_SIDES out_def h_def w_def)
  have ws: "well_shaped out"
    using assms(1) by (auto simp add: well_shaped_def out_def np_zeros_def list_all_iff)
  have r: "rows out = rows fr + 2 * h"
    by (simp add: rows_def out_def np_zeros_def)
  have c: "cols out = cols fr + 2 * w"
    by (simp add: out_def)
  have p: "pixels out = np_zeros h (cols out)
                        @ map (\<lambda>row. replicate w (0, 0, 0) @ row @ replicate w (0, 0, 0)) (pixels fr)
                        @ np_zeros h (cols out)"
    by (simp add: out_def)
  have hh: "2 * int h = (if even zeros_h then zeros_h else zeros_h + 1)"
    using assms(2) unfolding h_def by (simp, presburger)
  have ww: "2 * int w = (if even zeros_w then zeros_w else zeros_w + 1)"
    using assms(3) unfolding w_def by (simp, presburger)
  have ri: "int (rows out) = int (rows fr) + (if even zeros_h then zeros_h else zeros_h + 1)"
    unfolding r hh [symmetric] by simp
  have ci: "int (cols out) = int (cols fr) + (if even zeros_w then zeros_w else zeros_w + 1)"
    unfolding c ww [symmetric] by simp
  from res ws r c p ri ci show ?thesis
    unfolding h_def w_def by blast
qed

theorem lazySAMEpad_both_sides_rounds_up_witness:
  "well_shaped \<lparr>cols = 2, pixels = [[(1, 2, 3), (4, 5, 6)]]\<rparr>
   \<and> (\<exists>out. lazySAMEpad \<lparr>cols = 2, pixels = [[(1, 2, 3), (4, 5, 6)]]\<rparr> 2 3 ''BOTH_SIDES''
              = Inr (Some out)
            \<and> well_shaped out \<and> rows out = 3 \<and> cols out = 6)"
  using lazySAMEpad_both_sides_rounds_up [of "\<lparr>cols = 2, pixels = [[(1, 2, 3), (4, 5, 6)]]\<rparr>" 2 3]
  by (auto simp: well_shaped_def rows_def)



end
